theory Spec2Isabelle
  imports Complex_Main
begin

section \<open>Python values used by the client\<close>

text \<open>
  The development embeds \<^verbatim>\<open>DirectMethodMqttClient\<close> of
  \<^verbatim>\<open>direct_method_mqtt/client.py\<close>. Python strings are \<open>string\<close>s whose characters
  are read as code points below 256, Python integers are \<open>int\<close>, readings of
  \<^verbatim>\<open>time.time()\<close> are rationals, and the timeout is a float that may also be infinite
  or not a number.
\<close>

subsection \<open>Whitespace stripping\<close>

text \<open>
  \<^verbatim>\<open>str.strip()\<close> removes leading and trailing characters for which
  \<^verbatim>\<open>str.isspace()\<close> holds. Below 256 these are the code points 9 to 13, 28 to 32,
  133 and 160.
\<close>

definition isspace :: "char \<Rightarrow> bool" where
  "isspace ch =
     (let n = (of_char ch :: nat)
      in (9 \<le> n \<and> n \<le> 13) \<or> (28 \<le> n \<and> n \<le> 32) \<or> n = 133 \<or> n = 160)"

definition strip :: "string \<Rightarrow> string" where
  "strip s = rev (dropWhile isspace (rev (dropWhile isspace s)))"

subsection \<open>Floats\<close>

text \<open>
  The argument \<^verbatim>\<open>timeout\<close> of \<^verbatim>\<open>connect\<close> is a Python float. The loop compares the
  elapsed time with it; a comparison with \<^verbatim>\<open>nan\<close> is false.
\<close>

datatype pyfloat = Float rat | Plus_infinity | Minus_infinity | Not_a_number

fun less_than :: "rat \<Rightarrow> pyfloat \<Rightarrow> bool" where
  "less_than x (Float y) = (x < y)"
| "less_than x Plus_infinity = True"
| "less_than x Minus_infinity = False"
| "less_than x Not_a_number = False"

subsection \<open>Exceptions\<close>

text \<open>
  An exception value carries the method resolution order of its class, most specific class
  first, and its argument. \<^verbatim>\<open>isinstance(e, C)\<close> is membership of \<open>C\<close> in that order, so
  a clause \<^verbatim>\<open>except Exception\<close> lets through exactly the values whose order does not
  contain \<^verbatim>\<open>Exception\<close> (such as \<^verbatim>\<open>SystemExit\<close> and \<^verbatim>\<open>KeyboardInterrupt\<close>).
  The argument of an exception raised by the client is one constructor per message of the
  source, holding the values the message interpolates. An exception raised elsewhere (by
  the engine, by \<^verbatim>\<open>time.sleep\<close>, by user code) has the argument \<open>Text s\<close> when its
  \<^verbatim>\<open>__str__\<close> returns \<open>s\<close>, and \<open>Unprintable e\<close> when its \<^verbatim>\<open>__str__\<close> raises
  \<open>e\<close>: the source formats caught exceptions into messages with \<^verbatim>\<open>f"...{e}"\<close>.
\<close>

datatype exn = Exn (mro: "string list") (args: detail)
and detail =
    Text string
  | Unprintable exn
  | Host_empty
  | Port_out_of_range
  | Topic_empty
  | Message_empty
  | Not_connected
  | Initiate_failed int
  | Connection_timeout pyfloat
  | Connect_failed exn
  | Publish_failed_code int
  | Publish_failed exn
  | Subscribe_failed_code int
  | Subscribe_failed exn

definition isinstance :: "exn \<Rightarrow> string \<Rightarrow> bool" where
  "isinstance e cls = (cls \<in> set (mro e))"

text \<open>\<^verbatim>\<open>str(e)\<close>, as far as it can fail: the exception it raises, if any.\<close>

definition str_raises :: "exn \<Rightarrow> exn option" where
  "str_raises e = (case args e of Unprintable e' \<Rightarrow> Some e' | _ \<Rightarrow> None)"

definition ValueError :: "detail \<Rightarrow> exn" where
  "ValueError d = Exn [''ValueError'', ''Exception'', ''BaseException''] d"

definition RuntimeError :: "detail \<Rightarrow> exn" where
  "RuntimeError d = Exn [''RuntimeError'', ''Exception'', ''BaseException''] d"

definition ConnectionError :: "detail \<Rightarrow> exn" where
  "ConnectionError d = Exn [''ConnectionError'', ''OSError'', ''Exception'', ''BaseException''] d"

definition OSError :: "detail \<Rightarrow> exn" where
  "OSError d = Exn [''OSError'', ''Exception'', ''BaseException''] d"

definition UnicodeDecodeError :: exn where
  "UnicodeDecodeError =
     Exn [''UnicodeDecodeError'', ''UnicodeError'', ''ValueError'', ''Exception'', ''BaseException'']
       (Text ''invalid utf-8'')"

definition KeyboardInterrupt :: exn where
  "KeyboardInterrupt = Exn [''KeyboardInterrupt'', ''BaseException''] (Text [])"

definition SystemExit :: exn where
  "SystemExit = Exn [''SystemExit'', ''BaseException''] (Text ''0'')"

text \<open>
  An exception that a clause \<^verbatim>\<open>except Exception as e\<close> catches and that the clause can
  format into a message.
\<close>

definition catchable :: "exn \<Rightarrow> bool" where
  "catchable e = (isinstance e ''Exception'' \<and> str_raises e = None)"

section \<open>The protocol engine and the logger as seen from the client\<close>

text \<open>
  The paho-mqtt engine is not part of the repository. The model records every call the
  client issues to \<^verbatim>\<open>self._client\<close> and every record it hands to \<^verbatim>\<open>logger\<close>, and takes
  the outcome of each engine call and of each \<^verbatim>\<open>time.sleep\<close> as an argument of the
  operation that makes the call. Each of these calls returns or raises, and what it raises
  is any exception value: an error of the engine's, or an interrupt
  (\<^verbatim>\<open>KeyboardInterrupt\<close>) that arrives while the call blocks. The logger does not raise.
\<close>

datatype engine_call =
    Engine_connect string int int
  | Engine_loop_start
  | Engine_loop_stop
  | Engine_disconnect
  | Engine_publish string string int
  | Engine_subscribe string int

definition MQTT_ERR_SUCCESS :: int where
  "MQTT_ERR_SUCCESS = 0"

definition MQTT_LOG_WARNING :: int where
  "MQTT_LOG_WARNING = 4"

datatype log_record =
    Info_already_connected
  | Info_connecting string int
  | Info_not_connected
  | Info_disconnecting
  | Info_disconnected
  | Error_during_disconnect exn
  | Info_published string string
  | Info_subscribed string
  | Info_connected string int
  | Error_connection_failed int
  | Warning_unexpected_disconnection int
  | Info_connection_closed
  | Info_received string string
  | Error_processing_message exn
  | Debug_message_published int
  | Debug_subscription_granted int "int list"
  | Debug_mqtt string

section \<open>The client\<close>

text \<open>
  A registered message callback is an object of user code. The handler tests its truth
  value (\<^verbatim>\<open>if self._message_callback:\<close>), which raises or gives a boolean, and calls it,
  which returns (\<open>None\<close>) or raises (\<open>Some e\<close>); what user code raises is any exception
  value.

  The record of the client holds the attributes of the object, followed by what the
  environment has observed: the calls received by the engine, the records received by the
  logger, and the clock. The clock is read by the wait loop of \<^verbatim>\<open>connect\<close> only; it
  advances by the time that passes between two successive readings there, and time that
  passes elsewhere is not recorded.
\<close>

record MessageCallback =
  truth :: "exn + bool"
  invoke :: "string \<Rightarrow> string \<Rightarrow> exn option"

record client =
  broker_host :: string
  broker_port :: int
  topic :: string
  client_id :: string
  is_connected :: bool
  message_callback :: "MessageCallback option"
  engine_calls :: "engine_call list"
  logged :: "log_record list"
  clock :: rat

definition emit :: "log_record \<Rightarrow> client \<Rightarrow> client" where
  "emit r c = c\<lparr>logged := logged c @ [r]\<rparr>"

definition call :: "engine_call \<Rightarrow> client \<Rightarrow> client" where
  "call k c = c\<lparr>engine_calls := engine_calls c @ [k]\<rparr>"

definition sleep :: "rat \<Rightarrow> client \<Rightarrow> client" where
  "sleep d c = c\<lparr>clock := clock c + d\<rparr>"

subsection \<open>Construction\<close>

text \<open>
  \<^verbatim>\<open>__init__\<close>. The last argument is the value of \<^verbatim>\<open>uuid.uuid4().hex\<close>. A failed
  construction yields the exception and no object, hence no engine.
\<close>

definition init :: "string \<Rightarrow> int \<Rightarrow> string \<Rightarrow> string option \<Rightarrow> string \<Rightarrow> exn + client" where
  "init host port tpc cid uuid4_hex =
     (if strip host = [] then Inl (ValueError Host_empty)
      else if \<not> (1 \<le> port \<and> port \<le> 65535) then Inl (ValueError Port_out_of_range)
      else if strip tpc = [] then Inl (ValueError Topic_empty)
      else Inr \<lparr>broker_host = host,
                broker_port = port,
                topic = tpc,
                client_id =
                  (case cid of
                     Some s \<Rightarrow> if s \<noteq> [] then s else ''direct-method-client-'' @ take 8 uuid4_hex
                   | None \<Rightarrow> ''direct-method-client-'' @ take 8 uuid4_hex),
                is_connected = False,
                message_callback = None,
                engine_calls = [],
                logged = [],
                clock = 0\<rparr>)"

subsection \<open>Event handlers\<close>

text \<open>
  The handlers the constructor registers with the engine. They run on the engine's network
  loop, one event at a time. An incoming message is represented by what the two decoding
  steps of \<^verbatim>\<open>_on_message\<close> yield: \<^verbatim>\<open>msg.topic\<close> and
  \<^verbatim>\<open>msg.payload.decode('utf-8')\<close> each give a string or raise
  \<^verbatim>\<open>UnicodeDecodeError\<close> (\<open>None\<close>).
\<close>

record mqtt_message =
  topic_text :: "string option"
  payload_text :: "string option"

datatype event =
    On_connect int
  | On_disconnect int
  | On_message mqtt_message
  | On_publish int
  | On_subscribe int "int list"
  | On_log int string

definition on_connect :: "int \<Rightarrow> client \<Rightarrow> client" where
  "on_connect rc c =
     (if rc = 0
      then emit (Info_connected (broker_host c) (broker_port c)) (c\<lparr>is_connected := True\<rparr>)
      else emit (Error_connection_failed rc) (c\<lparr>is_connected := False\<rparr>))"

definition on_disconnect :: "int \<Rightarrow> client \<Rightarrow> client" where
  "on_disconnect rc c =
     (let c1 = c\<lparr>is_connected := False\<rparr>
      in if rc \<noteq> 0 then emit (Warning_unexpected_disconnection rc) c1
         else emit Info_connection_closed c1)"

text \<open>
  The body of the \<^verbatim>\<open>try\<close> block of \<^verbatim>\<open>_on_message\<close>. A callback that is
  \<^verbatim>\<open>None\<close> or whose truth value is false is not called; the message is logged
  instead.
\<close>

definition on_message_attempt :: "mqtt_message \<Rightarrow> client \<Rightarrow> exn option \<times> client" where
  "on_message_attempt msg c =
     (case topic_text msg of
        None \<Rightarrow> (Some UnicodeDecodeError, c)
      | Some tpc \<Rightarrow>
          (case payload_text msg of
             None \<Rightarrow> (Some UnicodeDecodeError, c)
           | Some message \<Rightarrow>
               (case message_callback c of
                  None \<Rightarrow> (None, emit (Info_received message tpc) c)
                | Some callback \<Rightarrow>
                    (case truth callback of
                       Inl e \<Rightarrow> (Some e, c)
                     | Inr True \<Rightarrow> (invoke callback tpc message, c)
                     | Inr False \<Rightarrow> (None, emit (Info_received message tpc) c)))))"

text \<open>
  \<^verbatim>\<open>_on_message\<close>: the \<^verbatim>\<open>except Exception as e\<close> clause formats \<open>e\<close> into the
  message it logs, and the formatting itself is not guarded; an exception that is not an
  instance of \<^verbatim>\<open>Exception\<close> leaves the handler.
\<close>

definition on_message :: "mqtt_message \<Rightarrow> client \<Rightarrow> exn option \<times> client" where
  "on_message msg c =
     (case on_message_attempt msg c of
        (None, c') \<Rightarrow> (None, c')
      | (Some e, c') \<Rightarrow>
          if isinstance e ''Exception''
          then (case str_raises e of
                  Some e' \<Rightarrow> (Some e', c')
                | None \<Rightarrow> (None, emit (Error_processing_message e) c'))
          else (Some e, c'))"

definition on_publish :: "int \<Rightarrow> client \<Rightarrow> client" where
  "on_publish mid c = emit (Debug_message_published mid) c"

definition on_subscribe :: "int \<Rightarrow> int list \<Rightarrow> client \<Rightarrow> client" where
  "on_subscribe mid granted_qos c = emit (Debug_subscription_granted mid granted_qos) c"

definition on_log :: "int \<Rightarrow> string \<Rightarrow> client \<Rightarrow> client" where
  "on_log level buf c = (if level \<le> MQTT_LOG_WARNING then emit (Debug_mqtt buf) c else c)"

fun dispatch :: "event \<Rightarrow> client \<Rightarrow> exn option \<times> client" where
  "dispatch (On_connect rc) c = (None, on_connect rc c)"
| "dispatch (On_disconnect rc) c = (None, on_disconnect rc c)"
| "dispatch (On_message msg) c = on_message msg c"
| "dispatch (On_publish mid) c = (None, on_publish mid c)"
| "dispatch (On_subscribe mid granted_qos) c = (None, on_subscribe mid granted_qos c)"
| "dispatch (On_log level buf) c = (None, on_log level buf c)"

text \<open>
  The network loop delivers events in order. An exception that leaves a handler ends the
  loop's thread: the events after it are not delivered.
\<close>

fun network_loop :: "event list \<Rightarrow> client \<Rightarrow> client" where
  "network_loop [] c = c"
| "network_loop (ev # evs) c =
     (case dispatch ev c of
        (None, c') \<Rightarrow> network_loop evs c'
      | (Some e, c') \<Rightarrow> c')"

subsection \<open>Connecting\<close>

text \<open>
  One turn of the wait loop, as the environment shapes it: \<^verbatim>\<open>time.sleep(0.1)\<close> raises
  (an interrupt) or returns, and then \<open>d\<close> is the time that has passed when the loop reads
  the clock again; meanwhile the network loop delivers the events \<open>delivered\<close>.
\<close>

record tick =
  sleep_result :: "exn + rat"
  delivered :: "event list"

text \<open>
  What the environment does during one call of \<^verbatim>\<open>connect\<close>: the transport-level
  connect raises or returns a result code; \<^verbatim>\<open>loop_start\<close> raises or returns; the
  network loop delivers \<open>before_first_test\<close> before the caller's first look at the flag;
  \<open>ticks\<close> are the turns of the wait loop it shapes; \<^verbatim>\<open>loop_stop\<close> raises or
  returns, when called after the loop and when called in the \<^verbatim>\<open>except\<close> clause.
\<close>

record connecting =
  connect_result :: "exn + int"
  loop_start_result :: "exn option"
  before_first_test :: "event list"
  ticks :: "tick list"
  loop_stop_in_try :: "exn option"
  loop_stop_in_except :: "exn option"

text \<open>
  The polling loop of \<^verbatim>\<open>connect\<close>:
  \<^verbatim>\<open>while not self._is_connected and (time.time() - start_time) < timeout: time.sleep(0.1)\<close>.
  The loop may run for ever. The result is \<open>None\<close> when the loop is still running after
  the last turn the environment has shaped; otherwise the loop has ended, by its test
  (\<open>Some (None, c)\<close>) or by an exception of the sleep (\<open>Some (Some e, c)\<close>).
\<close>

fun wait_loop :: "pyfloat \<Rightarrow> rat \<Rightarrow> tick list \<Rightarrow> client \<Rightarrow> (exn option \<times> client) option" where
  "wait_loop timeout start_time [] c =
     (if \<not> is_connected c \<and> less_than (clock c - start_time) timeout then None
      else Some (None, c))"
| "wait_loop timeout start_time (t # ts) c =
     (if \<not> is_connected c \<and> less_than (clock c - start_time) timeout
      then (case sleep_result t of
              Inl e \<Rightarrow> Some (Some e, c)
            | Inr d \<Rightarrow> wait_loop timeout start_time ts (network_loop (delivered t) (sleep d c)))
      else Some (None, c))"

text \<open>
  The wait for the connection to be established: the events that reach the handlers
  between \<^verbatim>\<open>loop_start()\<close> and the loop's first test, then
  \<^verbatim>\<open>start_time = time.time()\<close> and the loop.
\<close>

definition wait_for_connection ::
    "pyfloat \<Rightarrow> event list \<Rightarrow> tick list \<Rightarrow> client \<Rightarrow> (exn option \<times> client) option" where
  "wait_for_connection timeout evs ts c =
     (let c1 = network_loop evs c;
          start_time = clock c1
      in wait_loop timeout start_time ts c1)"

text \<open>The body of the \<^verbatim>\<open>try\<close> block of \<^verbatim>\<open>connect\<close>.\<close>

definition connect_attempt :: "pyfloat \<Rightarrow> connecting \<Rightarrow> client \<Rightarrow> (exn option \<times> client) option" where
  "connect_attempt timeout env c =
     (let c1 = emit (Info_connecting (broker_host c) (broker_port c)) c;
          c2 = call (Engine_connect (broker_host c) (broker_port c) 60) c1
      in case connect_result env of
           Inl e \<Rightarrow> Some (Some e, c2)
         | Inr result_code \<Rightarrow>
             if result_code \<noteq> MQTT_ERR_SUCCESS
             then Some (Some (ConnectionError (Initiate_failed result_code)), c2)
             else
               (let c3 = call Engine_loop_start c2
                in case loop_start_result env of
                     Some e \<Rightarrow> Some (Some e, c3)
                   | None \<Rightarrow>
                       (case wait_for_connection timeout (before_first_test env) (ticks env) c3 of
                          None \<Rightarrow> None
                        | Some (Some e, c4) \<Rightarrow> Some (Some e, c4)
                        | Some (None, c4) \<Rightarrow>
                            if \<not> is_connected c4
                            then
                              (let c5 = call Engine_loop_stop c4
                               in case loop_stop_in_try env of
                                    Some e \<Rightarrow> Some (Some e, c5)
                                  | None \<Rightarrow>
                                      Some (Some (ConnectionError (Connection_timeout timeout)), c5))
                            else Some (None, c4))))"

text \<open>
  The \<^verbatim>\<open>except Exception as e\<close> clause of \<^verbatim>\<open>connect\<close>, entered with a caught
  \<open>e\<close>: it calls \<^verbatim>\<open>loop_stop\<close>, raises \<open>e\<close> again when it is a
  \<^verbatim>\<open>ConnectionError\<close>, and otherwise formats \<open>e\<close> into a new
  \<^verbatim>\<open>ConnectionError\<close>.
\<close>

definition connect_except :: "connecting \<Rightarrow> exn \<Rightarrow> client \<Rightarrow> exn option \<times> client" where
  "connect_except env e c =
     (let c1 = call Engine_loop_stop c
      in case loop_stop_in_except env of
           Some e' \<Rightarrow> (Some e', c1)
         | None \<Rightarrow>
             if isinstance e ''ConnectionError'' then (Some e, c1)
             else (case str_raises e of
                     Some e' \<Rightarrow> (Some e', c1)
                   | None \<Rightarrow> (Some (ConnectionError (Connect_failed e)), c1)))"

text \<open>
  \<^verbatim>\<open>connect\<close>, with the test before the \<^verbatim>\<open>try\<close>. An exception that is not an
  instance of \<^verbatim>\<open>Exception\<close> passes the \<^verbatim>\<open>except\<close> clause by. The lock is taken on
  entry and released on every exit; the handlers do not take it.
\<close>

definition connect :: "pyfloat \<Rightarrow> connecting \<Rightarrow> client \<Rightarrow> (exn option \<times> client) option" where
  "connect timeout env c =
     (if is_connected c then Some (None, emit Info_already_connected c)
      else
        (case connect_attempt timeout env c of
           None \<Rightarrow> None
         | Some (None, c') \<Rightarrow> Some (None, c')
         | Some (Some e, c') \<Rightarrow>
             if isinstance e ''Exception'' then Some (connect_except env e c')
             else Some (Some e, c')))"

subsection \<open>Disconnecting\<close>




subsection \<open>Publishing and subscribing\<close>

text \<open>
  The second argument of \<open>publish\<close> and the argument of \<open>subscribe\<close> is what the
  engine's call does: it raises (\<open>Inl\<close>) or returns a result code.
\<close>

definition publish_attempt :: "string \<Rightarrow> exn + int \<Rightarrow> client \<Rightarrow> exn option \<times> client" where
  "publish_attempt message answer c =
     (let c1 = call (Engine_publish (topic c) message 0) c
      in case answer of
           Inl e \<Rightarrow> (Some e, c1)
         | Inr rc \<Rightarrow>
             if rc \<noteq> MQTT_ERR_SUCCESS then (Some (RuntimeError (Publish_failed_code rc)), c1)
             else (None, emit (Info_published message (topic c)) c1))"

definition publish :: "string \<Rightarrow> exn + int \<Rightarrow> client \<Rightarrow> exn option \<times> client" where
  "publish message answer c =
     (if message = [] then (Some (ValueError Message_empty), c)
      else if \<not> is_connected c then (Some (RuntimeError Not_connected), c)
      else
        (case publish_attempt message answer c of
           (None, c') \<Rightarrow> (None, c')
         | (Some e, c') \<Rightarrow>
             if isinstance e ''Exception''
             then (if isinstance e ''RuntimeError'' then (Some e, c')
                   else (case str_raises e of
                           Some e' \<Rightarrow> (Some e', c')
                         | None \<Rightarrow> (Some (RuntimeError (Publish_failed e)), c')))
             else (Some e, c')))"

definition subscribe_attempt :: "exn + int \<Rightarrow> client \<Rightarrow> exn option \<times> client" where
  "subscribe_attempt answer c =
     (let c1 = call (Engine_subscribe (topic c) 0) c
      in case answer of
           Inl e \<Rightarrow> (Some e, c1)
         | Inr result \<Rightarrow>
             if result \<noteq> MQTT_ERR_SUCCESS then (Some (RuntimeError (Subscribe_failed_code result)), c1)
             else (None, emit (Info_subscribed (topic c)) c1))"

definition subscribe :: "exn + int \<Rightarrow> client \<Rightarrow> exn option \<times> client" where
  "subscribe answer c =
     (if \<not> is_connected c then (Some (RuntimeError Not_connected), c)
      else
        (case subscribe_attempt answer c of
           (None, c') \<Rightarrow> (None, c')
         | (Some e, c') \<Rightarrow>
             if isinstance e ''Exception''
             then (if isinstance e ''RuntimeError'' then (Some e, c')
                   else (case str_raises e of
                           Some e' \<Rightarrow> (Some e', c')
                         | None \<Rightarrow> (Some (RuntimeError (Subscribe_failed e)), c')))
             else (Some e, c')))"

definition on_message_received :: "MessageCallback \<Rightarrow> client \<Rightarrow> client" where
  "on_message_received callback c = c\<lparr>message_callback := Some callback\<rparr>"

subsection \<open>Histories\<close>







subsection \<open>Well-behaved environments\<close>





definition duration :: "tick \<Rightarrow> rat" where
  "duration t = (case sleep_result t of Inl e \<Rightarrow> 0 | Inr d \<Rightarrow> d)"

definition slept :: "tick list \<Rightarrow> nat \<Rightarrow> rat" where
  "slept ts n = sum_list (map duration (take n ts))"


subsection \<open>Sample values\<close>

text \<open>
  The object built by \<^verbatim>\<open>DirectMethodMqttClient("localhost", 1883, "test/topic")\<close> of the
  class's docstring; a turn of the wait loop in which the sleep takes exactly 0.1 seconds
  and nothing arrives, and one in which the acknowledgement arrives; an engine that
  accepts the connection and acknowledges it during the caller's third sleep, and one
  that never answers during five sleeps; a \<^verbatim>\<open>disconnect\<close> that goes well; a callback
  that raises \<^verbatim>\<open>ValueError\<close>, one that calls \<^verbatim>\<open>sys.exit(0)\<close>, and one that raises
  an exception whose \<^verbatim>\<open>__str__\<close> raises.
\<close>

definition sample :: client where
  "sample =
     \<lparr>broker_host = ''localhost'', broker_port = 1883, topic = ''test/topic'',
      client_id = ''direct-method-client-01234567'', is_connected = False,
      message_callback = None, engine_calls = [], logged = [], clock = 0\<rparr>"

definition idle :: tick where
  "idle = \<lparr>sleep_result = Inr (1 / 10), delivered = []\<rparr>"


definition silent :: connecting where
  "silent =
     \<lparr>connect_result = Inr 0, loop_start_result = None, before_first_test = [],
      ticks = [idle, idle, idle, idle, idle], loop_stop_in_try = None,
      loop_stop_in_except = None\<rparr>"




definition raise_SystemExit :: "string \<Rightarrow> string \<Rightarrow> exn option" where
  "raise_SystemExit tpc message = Some SystemExit"

definition raise_unprintable :: "string \<Rightarrow> string \<Rightarrow> exn option" where
  "raise_unprintable tpc message = Some (ValueError (Unprintable (RuntimeError (Text ''no text''))))"


definition exiting_callback :: MessageCallback where
  "exiting_callback = \<lparr>truth = Inr True, invoke = raise_SystemExit\<rparr>"

definition unprintable_callback :: MessageCallback where
  "unprintable_callback = \<lparr>truth = Inr True, invoke = raise_unprintable\<rparr>"

definition hello :: mqtt_message where
  "hello = \<lparr>topic_text = Some ''test/topic'', payload_text = Some ''hello''\<rparr>"

section \<open>Auxiliary facts\<close>

lemma dropWhile_all: "(\<forall>x \<in> set (dropWhile P xs). P x) \<longleftrightarrow> (\<forall>x \<in> set xs. P x)"
  by (induction xs) auto

lemma strip_empty: "strip s = [] \<longleftrightarrow> (\<forall>ch \<in> set s. isspace ch)"
proof -
  have "strip s = [] \<longleftrightarrow> (\<forall>ch \<in> set (dropWhile isspace s). isspace ch)"
    by (simp add: strip_def dropWhile_eq_Nil_conv)
  then show ?thesis
    by (simp only: dropWhile_all)
qed

lemma isinstance_ValueError [simp]:
  "isinstance (ValueError d) ''ValueError''" "isinstance (ValueError d) ''Exception''"
  by (simp_all add: isinstance_def ValueError_def)

lemma isinstance_RuntimeError [simp]:
  "isinstance (RuntimeError d) ''RuntimeError''" "isinstance (RuntimeError d) ''Exception''"
  by (simp_all add: isinstance_def RuntimeError_def)

lemma isinstance_ConnectionError [simp]:
  "isinstance (ConnectionError d) ''ConnectionError''" "isinstance (ConnectionError d) ''Exception''"
  by (simp_all add: isinstance_def ConnectionError_def)

lemma isinstance_UnicodeDecodeError [simp]: "isinstance UnicodeDecodeError ''Exception''"
  by (simp add: isinstance_def UnicodeDecodeError_def)

section \<open>Construction\<close>

text \<open>
  C9, as stated, fails: the host \<^verbatim>\<open>" "\<close> is not empty, the port 1883 is in range and
  the topic is not empty, yet construction raises \<^verbatim>\<open>ValueError\<close>.
\<close>

theorem init_valid_triple_counterexample:
  "'' '' \<noteq> [] \<and> (1::int) \<le> 1883 \<and> (1883::int) \<le> 65535 \<and> ''test/topic'' \<noteq> []
   \<and> init '' '' 1883 ''test/topic'' None ''0123456789abcdef'' = Inl (ValueError Host_empty)"
  by (simp add: init_def strip_def isspace_def)

text \<open>
  C9, amended: construction with an empty host, a port outside 1 to 65535 or an empty topic
  raises \<^verbatim>\<open>ValueError\<close> and builds no object (so no engine is created or called); for
  every triple whose host and topic each contain a character that is not whitespace and
  whose port lies in 1 to 65535, construction succeeds, stores the triple, has issued no
  engine call, and \<^verbatim>\<open>is_connected\<close> is false.
\<close>

theorem init_validation:
  "(host = [] \<or> port < 1 \<or> 65535 < port \<or> tpc = [] \<longrightarrow>
      (\<exists>d. init host port tpc cid uuid4_hex = Inl (ValueError d)))
   \<and> ((\<exists>ch \<in> set host. \<not> isspace ch) \<and> 1 \<le> port \<and> port \<le> 65535
        \<and> (\<exists>ch \<in> set tpc. \<not> isspace ch) \<longrightarrow>
      (\<exists>c. init host port tpc cid uuid4_hex = Inr c \<and> \<not> is_connected c \<and> engine_calls c = []
           \<and> broker_host c = host \<and> broker_port c = port \<and> topic c = tpc))"
  by (auto simp: init_def strip_empty)

theorem init_validation_witness:
  "(\<exists>d. init [] 1883 ''test/topic'' None ''0123456789abcdef'' = Inl (ValueError d))
   \<and> (\<exists>d. init ''localhost'' 0 ''test/topic'' None ''0123456789abcdef'' = Inl (ValueError d))
   \<and> (\<exists>d. init ''localhost'' 65536 ''test/topic'' None ''0123456789abcdef'' = Inl (ValueError d))
   \<and> (\<exists>d. init ''localhost'' 1883 [] None ''0123456789abcdef'' = Inl (ValueError d))
   \<and> (\<exists>c. init ''localhost'' 1883 ''test/topic'' None ''0123456789abcdef'' = Inr c
          \<and> \<not> is_connected c)"
  using init_validation [of "[]" 1883 "''test/topic''" None "''0123456789abcdef''"]
    init_validation [of "''localhost''" 0 "''test/topic''" None "''0123456789abcdef''"]
    init_validation [of "''localhost''" 65536 "''test/topic''" None "''0123456789abcdef''"]
    init_validation [of "''localhost''" 1883 "[]" None "''0123456789abcdef''"]
    init_validation [of "''localhost''" 1883 "''test/topic''" None "''0123456789abcdef''"]
  by (auto simp: isspace_def)

text \<open>
  C10: a broker host or a topic that consists of whitespace only (for example
  \<^verbatim>\<open>" "\<close>) makes construction raise \<^verbatim>\<open>ValueError\<close>, because \<open>init\<close> tests the
  stripped string, and \<open>strip s\<close> is empty exactly when every character of \<open>s\<close> is
  whitespace (\<open>strip_empty\<close>).
\<close>

theorem init_rejects_whitespace:
  "(\<forall>ch \<in> set host. isspace ch) \<or> (\<forall>ch \<in> set tpc. isspace ch) \<Longrightarrow>
     \<exists>d. init host port tpc cid uuid4_hex = Inl (ValueError d)"
  by (auto simp: init_def strip_empty)

theorem init_rejects_whitespace_witness:
  "'' '' \<noteq> [] \<and> isspace CHR '' '' \<and> strip '' '' = []
   \<and> (\<exists>d. init '' '' 1883 ''test/topic'' None ''0123456789abcdef'' = Inl (ValueError d))
   \<and> (\<exists>d. init ''localhost'' 1883 '' '' None ''0123456789abcdef'' = Inl (ValueError d))"
  using init_rejects_whitespace [of "'' ''" "''test/topic''" 1883 None "''0123456789abcdef''"]
    init_rejects_whitespace [of "''localhost''" "'' ''" 1883 None "''0123456789abcdef''"]
  by (simp add: isspace_def strip_def)

section \<open>Publishing an empty message\<close>

text \<open>
  C6: \<^verbatim>\<open>publish("")\<close> raises the \<^verbatim>\<open>ValueError\<close> of the empty-message check in every
  state of the client, connected or not, and whatever the engine would answer; the object
  is left as it was, and the exception is not the \<^verbatim>\<open>RuntimeError\<close> of the
  connection-state check.
\<close>

theorem publish_empty_message:
  "publish [] answer c = (Some (ValueError Message_empty), c)
   \<and> isinstance (ValueError Message_empty) ''ValueError''
   \<and> \<not> isinstance (ValueError Message_empty) ''RuntimeError''"
  by (simp add: publish_def isinstance_def ValueError_def)

section \<open>Error classes of publish and subscribe\<close>

text \<open>
  C5, as stated, fails: \<^verbatim>\<open>subscribe\<close> on a client that is not connected and
  \<^verbatim>\<open>subscribe\<close> on a connected client whose engine returns the result code 1 raise
  exceptions of one and the same class, \<^verbatim>\<open>RuntimeError\<close>.
\<close>

theorem subscribe_error_classes_counterexample:
  "fst (subscribe (Inr 1) sample) = Some (RuntimeError Not_connected)
   \<and> fst (subscribe (Inr 1) (on_connect 0 sample)) = Some (RuntimeError (Subscribe_failed_code 1))
   \<and> mro (RuntimeError Not_connected) = mro (RuntimeError (Subscribe_failed_code 1))"
  by (simp add: subscribe_def subscribe_attempt_def sample_def on_connect_def emit_def call_def
      MQTT_ERR_SUCCESS_def RuntimeError_def isinstance_def)

text \<open>
  C5, amended: \<^verbatim>\<open>publish\<close> of a non-empty message and \<^verbatim>\<open>subscribe\<close>, invoked while
  \<^verbatim>\<open>is_connected\<close> is false, raise \<^verbatim>\<open>RuntimeError\<close> with the not-connected message and
  leave the object untouched; a non-success result code of the engine's \<^verbatim>\<open>subscribe\<close>
  raises \<^verbatim>\<open>RuntimeError\<close> as well, so for \<^verbatim>\<open>subscribe\<close> the two conditions have the
  same class and differ in their message only.
\<close>

theorem not_connected_is_runtime_error:
  "(\<not> is_connected c \<and> message \<noteq> [] \<longrightarrow>
      publish message answer c = (Some (RuntimeError Not_connected), c))
   \<and> (\<not> is_connected c \<longrightarrow> subscribe answer' c = (Some (RuntimeError Not_connected), c))
   \<and> (is_connected c \<and> result \<noteq> MQTT_ERR_SUCCESS \<longrightarrow>
        fst (subscribe (Inr result) c) = Some (RuntimeError (Subscribe_failed_code result)))
   \<and> mro (RuntimeError Not_connected) = mro (RuntimeError (Subscribe_failed_code result))
   \<and> args (RuntimeError Not_connected) \<noteq> args (RuntimeError (Subscribe_failed_code result))"
  by (simp add: publish_def subscribe_def subscribe_attempt_def RuntimeError_def isinstance_def Let_def)

theorem not_connected_is_runtime_error_witness:
  "\<not> is_connected sample \<and> ''hello'' \<noteq> [] \<and> is_connected (on_connect 0 sample)
   \<and> 1 \<noteq> MQTT_ERR_SUCCESS
   \<and> publish ''hello'' (Inr 0) sample = (Some (RuntimeError Not_connected), sample)
   \<and> subscribe (Inr 0) sample = (Some (RuntimeError Not_connected), sample)
   \<and> fst (subscribe (Inr 1) (on_connect 0 sample)) = Some (RuntimeError (Subscribe_failed_code 1))"
  using not_connected_is_runtime_error [of sample "''hello''" "Inr 0" "Inr 0" 1]
    not_connected_is_runtime_error [of "on_connect 0 sample" "''hello''" "Inr 0" "Inr 0" 1]
  by (simp add: sample_def on_connect_def emit_def MQTT_ERR_SUCCESS_def)

section \<open>Exceptions that are caught\<close>

lemma catchable_simps [simp]:
  "catchable (ValueError (Text s))" "catchable (RuntimeError (Text s))" "catchable (OSError (Text s))"
  "catchable UnicodeDecodeError" "\<not> catchable KeyboardInterrupt" "\<not> catchable SystemExit"
  by (simp_all add: catchable_def isinstance_def str_raises_def ValueError_def RuntimeError_def
      OSError_def UnicodeDecodeError_def KeyboardInterrupt_def SystemExit_def)

section \<open>Connecting while connected\<close>

text \<open>
  C8: when \<^verbatim>\<open>is_connected\<close> is true, \<^verbatim>\<open>connect\<close> returns at once and without an
  exception; all it does is log that the client is already connected, so it issues no
  engine call, does not sleep, and leaves \<^verbatim>\<open>is_connected\<close> true.
\<close>

theorem connect_when_connected:
  "is_connected c \<Longrightarrow>
     connect timeout env c = Some (None, emit Info_already_connected c)
     \<and> engine_calls (emit Info_already_connected c) = engine_calls c
     \<and> clock (emit Info_already_connected c) = clock c
     \<and> is_connected (emit Info_already_connected c)"
  by (simp add: connect_def emit_def)

theorem connect_when_connected_witness:
  "is_connected (on_connect 0 sample)
   \<and> map_option fst (connect (Float 5) silent (on_connect 0 sample)) = Some None
   \<and> map_option (engine_calls \<circ> snd) (connect (Float 5) silent (on_connect 0 sample)) = Some []
   \<and> map_option (is_connected \<circ> snd) (connect (Float 5) silent (on_connect 0 sample)) = Some True"
  using connect_when_connected [of "on_connect 0 sample" "Float 5" silent]
  by (simp add: on_connect_def sample_def emit_def)

section \<open>Exceptions in the message handler\<close>


text \<open>
  An instance of \<^verbatim>\<open>Exception\<close> whose \<^verbatim>\<open>__str__\<close> raises is caught, but the
  \<^verbatim>\<open>except\<close> clause fails while it formats the log record, and that second exception
  leaves the handler.
\<close>

lemma on_message_unprintable_exception:
  "fst (on_message hello (on_message_received unprintable_callback sample))
     = Some (RuntimeError (Text ''no text''))"
  by (simp add: on_message_def on_message_attempt_def hello_def on_message_received_def
      unprintable_callback_def raise_unprintable_def sample_def str_raises_def ValueError_def
      isinstance_def)

text \<open>A registered callback whose truth value is false is not called.\<close>

lemma on_message_falsy_callback:
  "on_message hello (on_message_received (exiting_callback\<lparr>truth := Inr False\<rparr>) sample)
     = (None, emit (Info_received ''hello'' ''test/topic'')
                (on_message_received (exiting_callback\<lparr>truth := Inr False\<rparr>) sample))"
  by (simp add: on_message_def on_message_attempt_def hello_def on_message_received_def)



section \<open>Disconnecting\<close>







section \<open>The wait loop and the paths of connect\<close>

lemma dispatch_frame:
  "engine_calls (snd (dispatch ev c)) = engine_calls c"
  "clock (snd (dispatch ev c)) = clock c"
  by (cases ev; simp add: on_connect_def on_disconnect_def on_message_def on_message_attempt_def
        on_publish_def on_subscribe_def on_log_def emit_def Let_def
        split: option.splits prod.splits sum.splits bool.splits)+

lemma network_loop_frame:
  "engine_calls (network_loop evs c) = engine_calls c \<and> clock (network_loop evs c) = clock c"
proof (induction evs arbitrary: c)
  case Nil
  show ?case by simp
next
  case (Cons ev evs)
  obtain r c' where d: "dispatch ev c = (r, c')"
    by (cases "dispatch ev c")
  have "engine_calls c' = engine_calls c \<and> clock c' = clock c"
    using dispatch_frame [of ev c] d by simp
  then show ?case
    using Cons.IH [of c'] d by (cases r) simp_all
qed




lemma wait_loop_calls:
  "wait_loop timeout start_time ts c = Some (r, c') \<Longrightarrow> engine_calls c' = engine_calls c"
proof (induction ts arbitrary: c)
  case Nil
  then show ?case by (simp split: if_splits)
next
  case (Cons t ts)
  show ?case
  proof (cases "\<not> is_connected c \<and> less_than (clock c - start_time) timeout")
    case False
    then show ?thesis using Cons.prems by auto
  next
    case True
    show ?thesis
    proof (cases "sleep_result t")
      case (Inl e)
      then show ?thesis using True Cons.prems by simp
    next
      case (Inr d)
      then have "wait_loop timeout start_time ts (network_loop (delivered t) (sleep d c)) = Some (r, c')"
        using True Cons.prems by simp
      then show ?thesis
        using Cons.IH by (simp add: network_loop_frame sleep_def)
    qed
  qed
qed




lemma slept_0 [simp]: "slept ts 0 = 0"
  by (simp add: slept_def)

lemma slept_Suc [simp]: "slept (t # ts) (Suc n) = duration t + slept ts n"
  by (simp add: slept_def)





lemma wait_for_connection_calls:
  "wait_for_connection timeout evs ts c = Some (r, c') \<Longrightarrow> engine_calls c' = engine_calls c"
  using wait_loop_calls [of timeout "clock (network_loop evs c)" ts "network_loop evs c" r c']
  by (simp add: wait_for_connection_def Let_def network_loop_frame)








lemma catchable_ConnectionError [simp]:
  "catchable (ConnectionError (Initiate_failed rc))"
  "catchable (ConnectionError (Connection_timeout timeout))"
  by (simp_all add: catchable_def str_raises_def ConnectionError_def isinstance_def)


lemma connect_connected:
  "is_connected c \<Longrightarrow> connect timeout env c = Some (None, emit Info_already_connected c)"
  by (simp add: connect_def)











section \<open>Failures of connect\<close>




section \<open>The time connect waits\<close>




section \<open>The life cycle of the connected flag\<close>













end
